theory Spec2Isabelle
  imports Main
begin

section \<open>JavaScript values used by the scheduling code\<close>

text \<open>
  The scheduling logic of the front office lives in two React components,
  \<^verbatim>\<open>src/Clerk/Dashboard/Dashboard.jsx\<close> and \<^verbatim>\<open>src/Chief/Dashboard.js\<close>.
  Every field the code reads from a Firestore document may be absent or \<^verbatim>\<open>null\<close>,
  so a field is a string, \<^verbatim>\<open>undefined\<close> or \<^verbatim>\<open>null\<close>; \<open>=\<close> on these values is
  \<^verbatim>\<open>===\<close>. Strings are lists of code units below 256.
\<close>

datatype jsval = Undefined | Null | Str string

definition truthy :: "jsval \<Rightarrow> bool" where
  \<comment> \<open>\<^verbatim>\<open>if (v)\<close>\<close>
  "truthy v = (case v of Str s \<Rightarrow> s \<noteq> [] | _ \<Rightarrow> False)"

definition js_or :: "jsval \<Rightarrow> jsval \<Rightarrow> jsval" where
  \<comment> \<open>\<^verbatim>\<open>a || b\<close>\<close>
  "js_or a b = (if truthy a then a else b)"

definition js_str :: "jsval \<Rightarrow> string" where
  \<comment> \<open>a value interpolated into a template literal or concatenated to a string\<close>
  "js_str v = (case v of Undefined \<Rightarrow> ''undefined'' | Null \<Rightarrow> ''null'' | Str s \<Rightarrow> s)"

definition startsWith :: "string \<Rightarrow> string \<Rightarrow> bool" where
  \<comment> \<open>\<^verbatim>\<open>s.startsWith(p)\<close>\<close>
  "startsWith s p = (take (length p) s = p)"

fun includes_str :: "string \<Rightarrow> string \<Rightarrow> bool" where
  \<comment> \<open>\<^verbatim>\<open>s.includes(p)\<close>, case-sensitive\<close>
  "includes_str [] p = (p = [])"
| "includes_str (c # cs) p = (startsWith (c # cs) p \<or> includes_str cs p)"

subsection \<open>Time-label normalization\<close>

text \<open>
  Every label goes through \<^verbatim>\<open>s.replace(/\s*(AM|PM)/i, '').trim()\<close>. The regular
  expression has no \<^verbatim>\<open>g\<close> flag and no anchor: it removes the leftmost match only,
  wherever it is. A match starts at a position when the maximal run of whitespace from
  there is followed by one of a, A, p, P and then m or M.
\<close>

definition is_space :: "char \<Rightarrow> bool" where
  \<comment> \<open>\<^verbatim>\<open>\s\<close> and the characters \<^verbatim>\<open>trim\<close> removes: TAB, LF, VT, FF, CR, space, NBSP\<close>
  "is_space c = (c \<in> {CHR 0x09, CHR 0x0A, CHR 0x0B, CHR 0x0C, CHR 0x0D, CHR '' '', CHR 0xA0})"

fun starts_marker :: "string \<Rightarrow> bool" where
  \<comment> \<open>\<^verbatim>\<open>(AM|PM)\<close> under the \<^verbatim>\<open>i\<close> flag, at the head of the string\<close>
  "starts_marker (a # m # _) =
     ((a = CHR ''A'' \<or> a = CHR ''a'' \<or> a = CHR ''P'' \<or> a = CHR ''p'') \<and>
      (m = CHR ''M'' \<or> m = CHR ''m''))"
| "starts_marker _ = False"

fun strip_marker :: "string \<Rightarrow> string" where
  \<comment> \<open>\<^verbatim>\<open>s.replace(/\s*(AM|PM)/i, '')\<close>\<close>
  "strip_marker [] = []"
| "strip_marker (c # cs) =
     (if starts_marker (dropWhile is_space (c # cs))
      then drop 2 (dropWhile is_space (c # cs))
      else c # strip_marker cs)"

definition trim :: "string \<Rightarrow> string" where
  \<comment> \<open>\<^verbatim>\<open>s.trim()\<close>\<close>
  "trim s = rev (dropWhile is_space (rev (dropWhile is_space s)))"

definition normalize_label :: "string \<Rightarrow> string" where
  "normalize_label s = trim (strip_marker s)"

fun has_marker :: "string \<Rightarrow> bool" where
  \<comment> \<open>an AM/PM marker, in any letter case, occurs somewhere in the string\<close>
  "has_marker [] = False"
| "has_marker (c # cs) = (starts_marker (c # cs) \<or> has_marker cs)"

definition ends_with_marker :: "string \<Rightarrow> bool" where
  \<comment> \<open>the last two characters are an AM/PM marker\<close>
  "ends_with_marker s = starts_marker (drop (length s - 2) s)"

definition is_m :: "char \<Rightarrow> bool" where
  "is_m c = (c = CHR ''M'' \<or> c = CHR ''m'')"

definition marker_letters :: "string \<Rightarrow> nat" where
  \<comment> \<open>how many letters M or m the string has; a marker needs one\<close>
  "marker_letters s = length (filter is_m s)"

section \<open>Documents\<close>

text \<open>
  A day of a doctor's \<^verbatim>\<open>workSchedule\<close>, as \<^verbatim>\<open>DoctorModal\<close> and
  \<^verbatim>\<open>authService\<close> write it: \<^verbatim>\<open>{ enabled, slots }\<close>. The schedule itself is an
  object keyed by the lower-case English day name.
\<close>

record daySchedule =
  enabled :: bool
  slots :: "string list option"

record doctor =
  d_id :: jsval
  d_uid :: jsval
  d_name :: jsval
  d_department :: jsval
  d_workSchedule :: "(string \<Rightarrow> daySchedule option) option"

record patient =
  p_id :: jsval
  p_name :: jsval

record appointment =
  a_id :: jsval
  a_patient :: jsval
  a_patientName :: jsval
  a_patientId :: jsval
  a_doctor :: jsval
  a_doctorName :: jsval
  a_doctorId :: jsval
  a_date :: jsval
  a_time :: jsval
  a_status :: jsval
  a_notes :: jsval

section \<open>Slot availability (Clerk dashboard)\<close>

datatype error = TypeError

datatype tableValue =
    Missing
  | Labels "string list"
  | InheritedFunction nat
  | InheritedObject

definition doctorSlots :: "string \<Rightarrow> tableValue" where
  \<comment> \<open>\<^verbatim>\<open>doctorSlots[key]\<close> on the module-level object literal of legacy slot lists: its
     own two entries, and what a plain object inherits from \<^verbatim>\<open>Object.prototype\<close>,
     which is a function (kept with its \<^verbatim>\<open>length\<close>) or, for \<^verbatim>\<open>__proto__\<close>, the
     prototype object, which has no \<^verbatim>\<open>length\<close>\<close>
  "doctorSlots n =
     (if n = ''Dr. Omar Khaled'' then Labels [''09:00 AM'', ''10:00 AM'', ''11:00 AM'', ''02:00 PM'']
      else if n = ''Dr. Lina Yousef'' then Labels [''10:00 AM'', ''11:00 AM'', ''01:00 PM'', ''03:00 PM'']
      else if n \<in> set [''constructor'', ''hasOwnProperty'', ''isPrototypeOf'',
                        ''propertyIsEnumerable'', ''__lookupGetter__'', ''__lookupSetter__'']
      then InheritedFunction 1
      else if n \<in> set [''__defineGetter__'', ''__defineSetter__''] then InheritedFunction 2
      else if n \<in> set [''toString'', ''toLocaleString'', ''valueOf''] then InheritedFunction 0
      else if n = ''__proto__'' then InheritedObject
      else Missing)"

definition doctorSlotsOf :: "jsval \<Rightarrow> tableValue" where
  \<comment> \<open>\<^verbatim>\<open>doctorSlots[docName]\<close>; the key is the name converted to a string\<close>
  "doctorSlotsOf docName = doctorSlots (js_str docName)"

definition defaultSlots :: "string list" where
  "defaultSlots =
     [''09:00'', ''09:30'', ''10:00'', ''10:30'', ''11:00'', ''11:30'', ''12:00'', ''12:30'',
      ''13:00'', ''13:30'', ''14:00'', ''14:30'', ''15:00'', ''15:30'', ''16:00'', ''16:30'',
      ''17:00'']"

definition dayNames :: "string list" where
  "dayNames = [''sunday'', ''monday'', ''tuesday'', ''wednesday'', ''thursday'', ''friday'',
     ''saturday'']"

definition usableSlots :: "daySchedule option \<Rightarrow> string list" where
  \<comment> \<open>the slots of a day when
     \<^verbatim>\<open>daySchedule && daySchedule.enabled && daySchedule.slots && daySchedule.slots.length > 0\<close>,
     the empty list otherwise\<close>
  "usableSlots ds =
     (case ds of None \<Rightarrow> []
      | Some d \<Rightarrow> (if enabled d then (case slots d of None \<Rightarrow> [] | Some sl \<Rightarrow> sl) else []))"

definition firstEnabledDay :: "(string \<Rightarrow> daySchedule option) \<Rightarrow> string list option" where
  \<comment> \<open>the \<^verbatim>\<open>for (const day of dayNames)\<close> loop of the branch without a date\<close>
  "firstEnabledDay ws =
     (case filter (\<lambda>sl. sl \<noteq> []) (map (\<lambda>day. usableSlots (ws day)) dayNames) of
        [] \<Rightarrow> None | sl # _ \<Rightarrow> Some sl)"

definition doctorSchedule :: "doctor option \<Rightarrow> (string \<Rightarrow> daySchedule option) option" where
  \<comment> \<open>\<^verbatim>\<open>doctor && doctor.workSchedule\<close>\<close>
  "doctorSchedule doc = (case doc of None \<Rightarrow> None | Some d \<Rightarrow> d_workSchedule d)"

definition scheduleSlots :: "(string \<Rightarrow> nat option) \<Rightarrow> doctor option \<Rightarrow> string \<Rightarrow> string list" where
  \<comment> \<open>the \<^verbatim>\<open>base\<close> list after the work-schedule lookup. \<open>getDay s\<close> stands for the
     runtime's \<^verbatim>\<open>new Date(s)\<close>: \<open>None\<close> when \<^verbatim>\<open>isNaN(date.getTime())\<close>, the value
     of \<^verbatim>\<open>date.getDay()\<close> otherwise. The argument is the string handed to
     \<^verbatim>\<open>new Date\<close>.\<close>
  "scheduleSlots getDay doc dateArg =
     (case doctorSchedule doc of None \<Rightarrow> []
      | Some ws \<Rightarrow>
          (case getDay dateArg of None \<Rightarrow> []
           | Some k \<Rightarrow> (if k < length dayNames then usableSlots (ws (dayNames ! k)) else [])))"

definition legacyFallback :: "jsval \<Rightarrow> error + string list" where
  \<comment> \<open>Fallback 1: \<^verbatim>\<open>base = doctorSlots[docName] ?? []\<close>, converted when its first label
     contains \<^verbatim>\<open>AM\<close> or \<^verbatim>\<open>PM\<close>. An inherited function of positive length has no
     element 0, so \<^verbatim>\<open>base[0].includes\<close> throws; one of length 0 passes as an empty
     list; the prototype object has no length, stays in \<^verbatim>\<open>base\<close>, and
     \<^verbatim>\<open>base.map\<close> throws.\<close>
  "legacyFallback docName =
     (case doctorSlotsOf docName of
        Missing \<Rightarrow> Inr []
      | Labels base \<Rightarrow>
          Inr (if base \<noteq> [] \<and> (includes_str (hd base) ''AM'' \<or> includes_str (hd base) ''PM'')
               then map normalize_label base else base)
      | InheritedFunction n \<Rightarrow> (if 0 < n then Inl TypeError else Inr [])
      | InheritedObject \<Rightarrow> Inl TypeError)"

definition doctorField :: "doctor option \<Rightarrow> (doctor \<Rightarrow> jsval) \<Rightarrow> jsval" where
  \<comment> \<open>\<^verbatim>\<open>doctor?.f\<close>\<close>
  "doctorField doc f = (case doc of None \<Rightarrow> Undefined | Some d \<Rightarrow> f d)"

definition matchesDoctor :: "jsval \<Rightarrow> doctor option \<Rightarrow> appointment \<Rightarrow> bool" where
  "matchesDoctor docName doc a =
     (js_or (a_doctor a) (a_doctorName a) = docName \<or>
      a_doctorId a = doctorField doc d_id \<or>
      a_doctorId a = doctorField doc d_uid)"

definition notCancelled :: "appointment \<Rightarrow> bool" where
  \<comment> \<open>\<^verbatim>\<open>a.status !== 'cancelled' && a.status !== 'Cancelled'\<close>\<close>
  "notCancelled a = (a_status a \<noteq> Str ''cancelled'' \<and> a_status a \<noteq> Str ''Cancelled'')"

definition takenTimes :: "(appointment \<Rightarrow> bool) \<Rightarrow> appointment list \<Rightarrow> string list" where
  \<comment> \<open>\<^verbatim>\<open>appointments.filter(keep).map(a => (a.time || '').replace(...).trim()).filter(Boolean)\<close>\<close>
  "takenTimes keep appointments =
     filter (\<lambda>t. t \<noteq> [])
       (map (\<lambda>a. normalize_label (case a_time a of Str t \<Rightarrow> t | _ \<Rightarrow> []))
          (filter keep appointments))"

definition availableSlots ::
  "(string \<Rightarrow> nat option) \<Rightarrow> doctor list \<Rightarrow> appointment list \<Rightarrow> jsval \<Rightarrow> jsval
     \<Rightarrow> error + string list" where
  \<comment> \<open>\<^verbatim>\<open>availableSlots(docName, dateStr)\<close> of \<^verbatim>\<open>ClerkDashboardModern\<close>, with the
     component state \<^verbatim>\<open>doctors\<close>, \<^verbatim>\<open>appointments\<close> and the runtime's date functions
     as arguments; \<open>Inl\<close> is an exception that leaves the function\<close>
  "availableSlots getDay doctors appointments docName dateStr =
     (let doc = find (\<lambda>d. d_name d = docName) doctors in
      if \<not> truthy dateStr then
        Inr (case (case doctorSchedule doc of None \<Rightarrow> None | Some ws \<Rightarrow> firstEnabledDay ws) of
               Some sl \<Rightarrow> sl
             | None \<Rightarrow> (case doctorSlotsOf docName of Labels sl \<Rightarrow> sl | _ \<Rightarrow> defaultSlots))
      else
        (let base0 = scheduleSlots getDay doc (js_str dateStr) in
         case (if base0 = [] then legacyFallback docName else Inr base0) of
           Inl e \<Rightarrow> Inl e
         | Inr base1 \<Rightarrow>
             (let base2 = (if base1 = [] then defaultSlots else base1);
                  taken = takenTimes
                            (\<lambda>a. matchesDoctor docName doc a \<and> a_date a = dateStr \<and>
                                 notCancelled a)
                            appointments;
                  normalizedBase = map normalize_label base2
              in Inr (filter (\<lambda>s. s \<notin> set taken) normalizedBase))))"

section \<open>Slot availability (Chief dashboard)\<close>

definition availableSlots_chief ::
  "(string \<Rightarrow> nat option) \<Rightarrow> doctor list \<Rightarrow> appointment list \<Rightarrow> jsval \<Rightarrow> jsval \<Rightarrow> jsval
     \<Rightarrow> string list" where
  \<comment> \<open>\<^verbatim>\<open>availableSlots(docName, dateStr)\<close> of the Chief's \<^verbatim>\<open>AppointmentModal\<close>;
     \<open>formId\<close> is \<^verbatim>\<open>safeForm.id\<close>, the id of the appointment being edited\<close>
  "availableSlots_chief getDay doctors appointments formId docName dateStr =
     (let doc = find (\<lambda>d. d_name d = docName) doctors;
          base0 = (if truthy dateStr
                   then scheduleSlots getDay doc (js_str dateStr @ ''T00:00:00'') else []);
          base = (if base0 = [] then defaultSlots else base0);
          taken = takenTimes
                    (\<lambda>a. (if truthy formId then a_id a \<noteq> formId else True) \<and>
                         matchesDoctor docName doc a \<and> a_date a = dateStr \<and> notCancelled a)
                    appointments;
          normalizedBase = map normalize_label base
      in filter (\<lambda>s. s \<notin> set taken) normalizedBase)"

section \<open>Slot availability (Clerk appointment form)\<close>

definition appointmentModalSlots ::
  "(string \<Rightarrow> nat option) \<Rightarrow> doctor list \<Rightarrow> appointment list \<Rightarrow> jsval \<Rightarrow> jsval \<Rightarrow> jsval
     \<Rightarrow> error + string list" where
  \<comment> \<open>the \<^verbatim>\<open>slots\<close> memo of the Clerk's \<^verbatim>\<open>AppointmentModal\<close>, over the form fields
     \<^verbatim>\<open>form.id\<close>, \<^verbatim>\<open>form.doctor\<close> and \<^verbatim>\<open>form.date\<close>\<close>
  "appointmentModalSlots getDay doctors appointments formId formDoctor formDate =
     (if \<not> truthy formDoctor \<or> \<not> truthy formDate then Inr []
      else
        (let doc = find (\<lambda>d. d_name d = formDoctor \<or> d_id d = formDoctor \<or>
                             d_uid d = formDoctor) doctors;
             base0 = scheduleSlots getDay doc (js_str formDate @ ''T00:00:00'')
         in case (if base0 = [] then legacyFallback formDoctor else Inr base0) of
              Inl e \<Rightarrow> Inl e
            | Inr base1 \<Rightarrow>
                (let base2 = (if base1 = [] then defaultSlots else base1);
                     taken = takenTimes
                               (\<lambda>a. a_id a \<noteq> formId \<and> matchesDoctor formDoctor doc a \<and>
                                    a_date a = formDate \<and> notCancelled a)
                               appointments;
                     normalizedBase = map normalize_label base2
                 in Inr (filter (\<lambda>s. s \<notin> set taken) normalizedBase))))"

section \<open>Saving an appointment and changing its status (Clerk dashboard)\<close>

text \<open>
  The writes go through \<^verbatim>\<open>services/firestoreService\<close>, and the operator is addressed
  with \<^verbatim>\<open>alert\<close> and \<^verbatim>\<open>window.confirm\<close>. A handler is modelled by the sequence of
  these calls it makes, in order; the answer to \<^verbatim>\<open>window.confirm\<close> is an argument.
\<close>

record updates =
  u_patientName :: jsval
  u_patientId :: jsval
  u_doctorId :: jsval
  u_doctorName :: jsval
  u_date :: jsval
  u_time :: jsval
  u_status :: jsval
  u_notes :: jsval

record newAppointment =
  n_patientId :: jsval
  n_patientName :: jsval
  n_doctorId :: jsval
  n_doctorName :: jsval
  n_date :: jsval
  n_time :: jsval
  n_status :: jsval
  n_notes :: jsval

record waitlistEntry =
  w_patient :: jsval
  w_department :: string
  w_preferredDate :: jsval
  w_notes :: string

datatype effect =
    Alert string
  | Confirm string
  | UpdateWebAppointment jsval updates
  | CreateWebAppointment newAppointment
  | CreateWebWaitlistEntry waitlistEntry
  | Rejection

definition noUpdates :: updates where
  \<comment> \<open>\<^verbatim>\<open>const updates = {}\<close>\<close>
  "noUpdates = \<lparr>u_patientName = Undefined, u_patientId = Undefined,
     u_doctorId = Undefined, u_doctorName = Undefined, u_date = Undefined, u_time = Undefined,
     u_status = Undefined, u_notes = Undefined\<rparr>"

definition isWrite :: "effect \<Rightarrow> bool" where
  \<comment> \<open>the calls that change a collection\<close>
  "isWrite e =
     (case e of UpdateWebAppointment _ _ \<Rightarrow> True | CreateWebAppointment _ \<Rightarrow> True
      | CreateWebWaitlistEntry _ \<Rightarrow> True | _ \<Rightarrow> False)"

definition clash :: "appointment list \<Rightarrow> appointment \<Rightarrow> bool" where
  \<comment> \<open>the \<^verbatim>\<open>appointments.some(...)\<close> guard of \<^verbatim>\<open>saveAppointment\<close>\<close>
  "clash appointments ap =
     list_ex (\<lambda>a. a_id a \<noteq> a_id ap \<and>
                  (a_doctor a = a_doctor ap \<or> a_doctorId a = a_doctorId ap \<or>
                   a_doctorName a = a_doctor ap) \<and>
                  a_date a = a_date ap \<and>
                  a_time a = a_time ap \<and>
                  a_status a \<noteq> Str ''Cancelled'')
       appointments"

definition findDoctorFor :: "doctor list \<Rightarrow> appointment \<Rightarrow> doctor option" where
  \<comment> \<open>\<^verbatim>\<open>doctors.find(d => d.name === ap.doctor || d.id === ap.doctorId || d.uid === ap.doctorId)\<close>\<close>
  "findDoctorFor doctors ap =
     find (\<lambda>d. d_name d = a_doctor ap \<or> d_id d = a_doctorId ap \<or> d_uid d = a_doctorId ap)
       doctors"

definition findPatientFor :: "patient list \<Rightarrow> appointment \<Rightarrow> patient option" where
  \<comment> \<open>\<^verbatim>\<open>patients.find(p => p.name === ap.patient || p.id === ap.patientId)\<close>\<close>
  "findPatientFor patients ap =
     find (\<lambda>p. p_name p = a_patient ap \<or> p_id p = a_patientId ap) patients"

definition appointmentUpdates :: "doctor list \<Rightarrow> appointment \<Rightarrow> updates" where
  \<comment> \<open>the \<^verbatim>\<open>updates\<close> object built for an existing appointment\<close>
  "appointmentUpdates doctors ap =
     (let u1 = (if truthy (js_or (a_patient ap) (a_patientName ap))
                then noUpdates\<lparr>u_patientName := js_or (a_patient ap) (a_patientName ap)\<rparr>
                else noUpdates);
          u2 = (if truthy (a_patientId ap) then u1\<lparr>u_patientId := a_patientId ap\<rparr> else u1);
          u3 = (if truthy (js_or (a_doctor ap) (a_doctorName ap))
                then (case findDoctorFor doctors ap of
                        None \<Rightarrow> u2
                      | Some d \<Rightarrow> u2\<lparr>u_doctorId := js_or (d_uid d) (d_id d),
                                     u_doctorName := d_name d\<rparr>)
                else u2);
          u4 = (if truthy (a_date ap) then u3\<lparr>u_date := a_date ap\<rparr> else u3);
          u5 = (if truthy (a_time ap) then u4\<lparr>u_time := a_time ap\<rparr> else u4);
          u6 = (if truthy (a_status ap) then u5\<lparr>u_status := a_status ap\<rparr> else u5)
      in (if a_notes ap \<noteq> Undefined then u6\<lparr>u_notes := a_notes ap\<rparr> else u6))"

definition newAppointmentOf :: "doctor list \<Rightarrow> patient list \<Rightarrow> appointment \<Rightarrow> newAppointment" where
  \<comment> \<open>the document handed to \<^verbatim>\<open>createWebAppointment\<close>\<close>
  "newAppointmentOf doctors patients ap =
     (let doc = findDoctorFor doctors ap;
          pat = findPatientFor patients ap
      in \<lparr>n_patientId = js_or (case pat of None \<Rightarrow> Undefined | Some p \<Rightarrow> p_id p)
                           (js_or (a_patientId ap) Null),
          n_patientName = js_or (case pat of None \<Rightarrow> Undefined | Some p \<Rightarrow> p_name p)
                             (js_or (a_patient ap) (a_patientName ap)),
          n_doctorId = js_or (doctorField doc d_uid) (js_or (doctorField doc d_id) (a_doctorId ap)),
          n_doctorName = js_or (doctorField doc d_name) (js_or (a_doctor ap) (a_doctorName ap)),
          n_date = a_date ap,
          n_time = a_time ap,
          n_status = js_or (a_status ap) (Str ''scheduled''),
          n_notes = js_or (a_notes ap) (Str [])\<rparr>)"

definition saveAppointment ::
  "doctor list \<Rightarrow> patient list \<Rightarrow> appointment list \<Rightarrow> appointment \<Rightarrow> effect list" where
  "saveAppointment doctors patients appointments ap =
     (if clash appointments ap
      then [Alert ''This slot is already booked for the selected doctor.'']
      else if truthy (a_id ap) \<and> \<not> startsWith (js_str (a_id ap)) ''A-''
      then [UpdateWebAppointment (a_id ap) (appointmentUpdates doctors ap)]
      else [CreateWebAppointment (newAppointmentOf doctors patients ap)])"

definition getDeptByDoctorName :: "doctor list \<Rightarrow> jsval \<Rightarrow> string" where
  \<comment> \<open>\<^verbatim>\<open>doctors.find((d) => d.name === docName)?.department ?? "Unknown"\<close>\<close>
  "getDeptByDoctorName doctors docName =
     (case doctorField (find (\<lambda>d. d_name d = docName) doctors) d_department of
        Str dep \<Rightarrow> dep | _ \<Rightarrow> ''Unknown'')"

definition waitlistOffer :: "doctor list \<Rightarrow> appointment \<Rightarrow> string" where
  \<comment> \<open>the question put to the operator\<close>
  "waitlistOffer doctors ap =
     ''Add '' @ js_str (js_or (a_patient ap) (a_patientName ap)) @ '' to waitlist for '' @
     getDeptByDoctorName doctors (js_or (a_doctor ap) (a_doctorName ap)) @ ''?''"

definition waitlistEntryOf :: "doctor list \<Rightarrow> appointment \<Rightarrow> waitlistEntry" where
  \<comment> \<open>the document handed to \<^verbatim>\<open>createWebWaitlistEntry\<close>\<close>
  "waitlistEntryOf doctors ap =
     \<lparr>w_patient = js_or (a_patient ap) (a_patientName ap),
      w_department = getDeptByDoctorName doctors (js_or (a_doctor ap) (a_doctorName ap)),
      w_preferredDate = a_date ap,
      w_notes = ''Cancelled '' @ js_str (js_or (a_doctor ap) (a_doctorName ap)) @ '' '' @
                js_str (a_time ap)\<rparr>"

definition updateStatus ::
  "bool \<Rightarrow> (string \<Rightarrow> bool) \<Rightarrow> doctor list \<Rightarrow> appointment list \<Rightarrow> jsval \<Rightarrow> string
     \<Rightarrow> effect list" where
  \<comment> \<open>\<open>resolves\<close> tells whether the awaited \<^verbatim>\<open>updateWebAppointment\<close> succeeds (when it
     rejects, so does the handler, and nothing after it runs); \<open>confirm\<close> is the operator's
     answer to \<^verbatim>\<open>window.confirm\<close>\<close>
  "updateStatus resolves confirm doctors appointments ident status =
     UpdateWebAppointment ident (noUpdates\<lparr>u_status := Str status\<rparr>) #
     (if \<not> resolves then [Rejection]
      else if status = ''Cancelled''
      then (case find (\<lambda>a. a_id a = ident) appointments of
              None \<Rightarrow> []
            | Some ap \<Rightarrow>
                Confirm (waitlistOffer doctors ap) #
                (if confirm (waitlistOffer doctors ap)
                 then [CreateWebWaitlistEntry (waitlistEntryOf doctors ap)]
                 else []))
      else [])"

section \<open>The runtime's calendar\<close>

text \<open>
  The code leaves the calendar to the runtime (\<^verbatim>\<open>new Date(s).getDay()\<close>), so the
  functions above take it as the argument \<open>getDay\<close>. \<open>runtimeGetDay tz\<close> is the
  runtime of a browser whose local time is \<open>tz\<close> minutes ahead of UTC, on the strings
  that the date inputs of the application produce. ECMAScript reads a date-only string
  \<^verbatim>\<open>YYYY-MM-DD\<close> as midnight UTC and a date-time string without offset, here
  \<^verbatim>\<open>YYYY-MM-DDT00:00:00\<close>, as local time; \<^verbatim>\<open>getDay\<close> answers in local time. The
  Clerk's dashboard function hands over the date string as it is; the Chief's function
  and the Clerk's form append \<^verbatim>\<open>T00:00:00\<close> first. Daylight saving is left out, and
  any other string counts as an invalid date.
\<close>

definition digitVal :: "char \<Rightarrow> nat option" where
  "digitVal c = (if 48 \<le> (of_char c :: nat) \<and> (of_char c :: nat) \<le> 57
                 then Some (of_char c - 48) else None)"

fun number :: "string \<Rightarrow> nat option" where
  "number [] = None"
| "number cs = fold (\<lambda>c acc. case (acc, digitVal c) of (Some n, Some d) \<Rightarrow> Some (10 * n + d)
                                                     | _ \<Rightarrow> None) cs (Some 0)"

definition isLeap :: "nat \<Rightarrow> bool" where
  "isLeap y = (y mod 4 = 0 \<and> (y mod 100 \<noteq> 0 \<or> y mod 400 = 0))"

definition daysInMonth :: "nat \<Rightarrow> nat \<Rightarrow> nat" where
  "daysInMonth y m =
     (if m = 2 then (if isLeap y then 29 else 28)
      else if m = 4 \<or> m = 6 \<or> m = 9 \<or> m = 11 then 30 else 31)"

definition daysFromCivil :: "nat \<Rightarrow> nat \<Rightarrow> nat \<Rightarrow> int" where
  \<comment> \<open>days since 1970-01-01 in the proleptic Gregorian calendar\<close>
  "daysFromCivil y m d =
     (let y' = (if m \<le> 2 then int y - 1 else int y);
          era = y' div 400;
          yoe = y' - era * 400;
          mp = (if m > 2 then int m - 3 else int m + 9);
          doy = (153 * mp + 2) div 5 + int d - 1;
          doe = yoe * 365 + yoe div 4 - yoe div 100 + doy
      in era * 146097 + doe - 719468)"

definition isoDays :: "string \<Rightarrow> int option" where
  \<comment> \<open>the day number of a calendar date written \<^verbatim>\<open>YYYY-MM-DD\<close>\<close>
  "isoDays s =
     (if length s = 10 \<and> s ! 4 = CHR ''-'' \<and> s ! 7 = CHR ''-''
      then (case (number (take 4 s), number (take 2 (drop 5 s)), number (take 2 (drop 8 s))) of
              (Some y, Some m, Some d) \<Rightarrow>
                (if 1 \<le> m \<and> m \<le> 12 \<and> 1 \<le> d \<and> d \<le> daysInMonth y m
                 then Some (daysFromCivil y m d) else None)
            | _ \<Rightarrow> None)
      else None)"

definition weekdayOfDay :: "int \<Rightarrow> nat" where
  \<comment> \<open>0 is Sunday; 1970-01-01 was a Thursday\<close>
  "weekdayOfDay n = nat ((n + 4) mod 7)"

definition civilWeekday :: "string \<Rightarrow> nat option" where
  \<comment> \<open>the weekday of a calendar date, with no time zone involved\<close>
  "civilWeekday s = map_option weekdayOfDay (isoDays s)"

definition runtimeGetDay :: "int \<Rightarrow> string \<Rightarrow> nat option" where
  "runtimeGetDay tz s =
     (if length s = 10
      then map_option (\<lambda>n. weekdayOfDay ((n * 1440 + tz) div 1440)) (isoDays s)
      else if length s = 19 \<and> drop 10 s = ''T00:00:00''
      then map_option weekdayOfDay (isoDays (take 10 s))
      else None)"

definition isoGetDay :: "string \<Rightarrow> nat option" where
  \<comment> \<open>the runtime of a browser on UTC\<close>
  "isoGetDay = runtimeGetDay 0"

section \<open>The specification's vocabulary\<close>

text \<open>
  The definitions of this section are not taken from the code. They say, in the words of
  the specification, what the code is compared with.
\<close>

definition lower :: "char \<Rightarrow> char" where
  "lower c =
     (case map_of (zip ''ABCDEFGHIJKLMNOPQRSTUVWXYZ'' ''abcdefghijklmnopqrstuvwxyz'') c of
        None \<Rightarrow> c | Some l \<Rightarrow> l)"

definition cancelled_ci :: "jsval \<Rightarrow> bool" where
  \<comment> \<open>the status is Cancelled under case-insensitive comparison\<close>
  "cancelled_ci v = (case v of Str s \<Rightarrow> map lower s = ''cancelled'' | _ \<Rightarrow> False)"

definition timeLabel :: "appointment \<Rightarrow> string" where
  \<comment> \<open>the normalized time of an appointment\<close>
  "timeLabel a = normalize_label (case a_time a of Str t \<Rightarrow> t | _ \<Rightarrow> [])"

definition sameDoctor :: "appointment \<Rightarrow> appointment \<Rightarrow> bool" where
  \<comment> \<open>the same doctor, by the id field or by one of the name fields\<close>
  "sameDoctor a ap =
     (a_doctor a = a_doctor ap \<or> a_doctorId a = a_doctorId ap \<or> a_doctorName a = a_doctor ap)"

definition hasConflict_spec :: "appointment list \<Rightarrow> appointment \<Rightarrow> bool" where
  \<comment> \<open>Contract B of the specification, with the appointment being saved as the target\<close>
  "hasConflict_spec appointments ap =
     list_ex (\<lambda>a. sameDoctor a ap \<and> a_date a = a_date ap \<and> timeLabel a = timeLabel ap \<and>
                  \<not> cancelled_ci (a_status a) \<and> a_id a \<noteq> a_id ap)
       appointments"

definition twoDigits :: "nat \<Rightarrow> string" where
  "twoDigits n = [''0123456789'' ! (n div 10), ''0123456789'' ! (n mod 10)]"

definition halfHourGrid :: "string list" where
  \<comment> \<open>17 labels from 09:00 to 17:00 in steps of 30 minutes\<close>
  "halfHourGrid =
     map (\<lambda>i. twoDigits ((540 + 30 * i) div 60) @ '':'' @ twoDigits ((540 + 30 * i) mod 60))
       [0..<17]"

section \<open>Example data\<close>

definition exMonday :: string where
  "exMonday = ''2024-01-01''"

definition exSchedule :: "string \<Rightarrow> daySchedule option" where
  "exSchedule day =
     (if day = ''monday''
      then Some \<lparr>enabled = True, slots = Some [''09:00'', ''09:30'', ''10:00'']\<rparr>
      else if day = ''tuesday''
      then Some \<lparr>enabled = False, slots = Some [''08:00'']\<rparr>
      else if day = ''wednesday''
      then Some \<lparr>enabled = True, slots = Some [''09:00 AM'', '' 01:30 pm '']\<rparr>
      else None)"

definition exDoctor :: doctor where
  "exDoctor = \<lparr>d_id = Str ''doc-1'', d_uid = Str ''uid-1'', d_name = Str ''Dr. D'',
     d_department = Undefined, d_workSchedule = Some exSchedule\<rparr>"

definition exAppointment :: appointment where
  "exAppointment = \<lparr>a_id = Str ''appt-1'', a_patient = Str ''Ahmad Saleh'',
     a_patientName = Undefined, a_patientId = Str ''pat-1'', a_doctor = Str ''Dr. D'',
     a_doctorName = Undefined, a_doctorId = Str ''uid-1'', a_date = Str ''2024-01-01'',
     a_time = Str ''09:30'', a_status = Str ''Scheduled'', a_notes = Undefined\<rparr>"

definition exConstructor :: doctor where
  \<comment> \<open>a doctor without a work schedule whose name is a key that every object inherits\<close>
  "exConstructor = \<lparr>d_id = Str ''doc-2'', d_uid = Undefined, d_name = Str ''constructor'',
     d_department = Str ''Oncology'', d_workSchedule = None\<rparr>"

definition exRequest :: appointment where
  \<comment> \<open>a new booking for the slot that \<open>exAppointment\<close> holds\<close>
  "exRequest = exAppointment\<lparr>a_id := Str ''A-7f3k'', a_patient := Str ''Sara Mahmoud'',
     a_patientId := Str ''pat-2''\<rparr>"

section \<open>Facts about normalization\<close>

lemma starts_marker_length: "starts_marker s \<Longrightarrow> 2 \<le> length s"
  by (cases s rule: starts_marker.cases) auto

lemma starts_marker_not_space: "starts_marker (c # cs) \<Longrightarrow> \<not> is_space c"
  by (cases cs) (auto simp: is_space_def)

lemma starts_has_marker: "starts_marker s \<Longrightarrow> has_marker s"
  by (cases s) auto

lemma has_marker_append_left: "has_marker xs \<Longrightarrow> has_marker (xs @ ys)"
proof (induction xs)
  case Nil
  then show ?case by simp
next
  case (Cons x xs)
  show ?case
  proof (cases "starts_marker (x # xs)")
    case True
    then obtain m r where "xs = m # r" by (cases xs) auto
    with True show ?thesis by simp
  next
    case False
    with Cons show ?thesis by simp
  qed
qed

lemma has_marker_append_right: "has_marker ys \<Longrightarrow> has_marker (xs @ ys)"
  by (induction xs) auto

lemma has_marker_dropWhile: "has_marker (dropWhile P s) \<Longrightarrow> has_marker s"
  using has_marker_append_right [of "dropWhile P s" "takeWhile P s"] by simp

lemma ends_has_marker: "ends_with_marker s \<Longrightarrow> has_marker s"
proof -
  assume "ends_with_marker s"
  then have "has_marker (drop (length s - 2) s)"
    unfolding ends_with_marker_def by (rule starts_has_marker)
  then have "has_marker (take (length s - 2) s @ drop (length s - 2) s)"
    by (rule has_marker_append_right)
  then show ?thesis by simp
qed

text \<open>A string without a marker has nothing to replace; a string with one gets shorter.\<close>

lemma strip_marker_id: "\<not> has_marker s \<Longrightarrow> strip_marker s = s"
proof (induction s)
  case Nil
  then show ?case by simp
next
  case (Cons c cs)
  have "\<not> starts_marker (dropWhile is_space (c # cs))"
    using Cons.prems has_marker_dropWhile starts_has_marker by blast
  with Cons show ?case by simp
qed

lemma strip_marker_shorter: "has_marker s \<Longrightarrow> length (strip_marker s) < length s"
proof (induction s)
  case Nil
  then show ?case by simp
next
  case (Cons c cs)
  show ?case
  proof (cases "starts_marker (dropWhile is_space (c # cs))")
    case True
    have "length (dropWhile is_space (c # cs)) \<le> length (c # cs)"
      by (rule length_dropWhile_le)
    moreover have "2 \<le> length (dropWhile is_space (c # cs))"
      using True by (rule starts_marker_length)
    ultimately show ?thesis using True by simp
  next
    case False
    have "\<not> starts_marker (c # cs)"
    proof
      assume s: "starts_marker (c # cs)"
      then have "\<not> is_space c" by (rule starts_marker_not_space)
      then have "dropWhile is_space (c # cs) = c # cs" by simp
      with s False show False by simp
    qed
    with Cons.prems have "has_marker cs" by simp
    with Cons.IH False show ?thesis by simp
  qed
qed

lemma length_trim: "length (trim s) \<le> length s"
  unfolding trim_def
  by (metis length_dropWhile_le length_rev le_trans)

lemma last_dropWhile: "dropWhile P xs \<noteq> [] \<Longrightarrow> last (dropWhile P xs) = last xs"
  by (induction xs) (auto split: if_splits)

lemma dropWhile_head_id: "xs = [] \<or> \<not> P (hd xs) \<Longrightarrow> dropWhile P xs = xs"
  by (cases xs) auto

lemma trim_idem: "trim (trim s) = trim s"
proof -
  let ?d = "dropWhile is_space s"
  let ?e = "dropWhile is_space (rev ?d)"
  have front: "dropWhile is_space (rev ?e) = rev ?e"
  proof (cases "?e = []")
    case True
    show ?thesis unfolding True by simp
  next
    case False
    then have d: "?d \<noteq> []" by (metis dropWhile.simps(1) rev.simps(1))
    have "last ?e = last (rev ?d)" using False by (rule last_dropWhile)
    also have "\<dots> = hd ?d" using d by (simp add: last_rev)
    finally have "hd (rev ?e) = hd ?d" using False by (simp add: hd_rev)
    moreover have "\<not> is_space (hd ?d)" using d by (rule hd_dropWhile)
    ultimately show ?thesis by (intro dropWhile_head_id) simp
  qed
  have "trim (rev ?e) = rev (dropWhile is_space (rev (rev ?e)))"
    unfolding trim_def front ..
  also have "\<dots> = rev ?e" by simp
  finally show ?thesis unfolding trim_def .
qed

lemma trim_normalize: "trim (normalize_label s) = normalize_label s"
  by (simp add: normalize_label_def trim_idem)

lemma normalize_fixed: "\<not> has_marker s \<Longrightarrow> trim s = s \<Longrightarrow> normalize_label s = s"
  by (simp add: normalize_label_def strip_marker_id)

lemma normalize_shorter: "has_marker s \<Longrightarrow> length (normalize_label s) < length s"
  unfolding normalize_label_def
  using strip_marker_shorter [of s] length_trim [of "strip_marker s"] by simp

text \<open>A label with at most one letter M has no marker left after one pass.\<close>

lemma trim_decomp: "\<exists>a b. s = a @ trim s @ b"
proof -
  let ?d = "dropWhile is_space s"
  have "rev ?d = takeWhile is_space (rev ?d) @ dropWhile is_space (rev ?d)" by simp
  then have "?d = rev (dropWhile is_space (rev ?d)) @ rev (takeWhile is_space (rev ?d))"
    by (metis rev_append rev_rev_ident)
  then have "s = takeWhile is_space s @ trim s @ rev (takeWhile is_space (rev ?d))"
    unfolding trim_def by (metis takeWhile_dropWhile_id)
  then show ?thesis by blast
qed

lemma has_marker_trim: "has_marker (trim s) \<Longrightarrow> has_marker s"
proof -
  assume h: "has_marker (trim s)"
  obtain a b where ab: "s = a @ trim s @ b" using trim_decomp by blast
  from h have "has_marker (a @ trim s @ b)"
    by (intro has_marker_append_right has_marker_append_left)
  with ab show ?thesis by simp
qed

lemma marker_letters_trim: "marker_letters (trim s) \<le> marker_letters s"
proof -
  obtain a b where ab: "s = a @ trim s @ b" using trim_decomp by blast
  have "marker_letters (a @ trim s @ b) = marker_letters a + marker_letters (trim s) + marker_letters b"
    by (simp add: marker_letters_def)
  with ab show ?thesis by simp
qed

lemma has_marker_letters: "has_marker s \<Longrightarrow> 1 \<le> marker_letters s"
proof (induction s)
  case Nil
  then show ?case by simp
next
  case (Cons c cs)
  show ?case
  proof (cases "starts_marker (c # cs)")
    case True
    then obtain m r where "cs = m # r" "is_m m" by (cases cs) (auto simp: is_m_def)
    then show ?thesis by (simp add: marker_letters_def)
  next
    case False
    with Cons have "1 \<le> marker_letters cs" by simp
    then show ?thesis by (simp add: marker_letters_def)
  qed
qed

lemma marker_letters_dropWhile:
  "marker_letters (dropWhile is_space s) = marker_letters s"
proof -
  have "\<not> is_m c" if "is_space c" for c
    using that by (auto simp: is_space_def is_m_def)
  then have "filter is_m (takeWhile is_space s) = []"
    by (induction s) auto
  then have "marker_letters (takeWhile is_space s @ dropWhile is_space s) =
      marker_letters (dropWhile is_space s)"
    unfolding marker_letters_def filter_append by simp
  then show ?thesis by simp
qed

lemma marker_letters_drop2:
  "starts_marker d \<Longrightarrow> marker_letters (drop 2 d) < marker_letters d"
  by (cases d rule: starts_marker.cases) (auto simp: marker_letters_def is_m_def)

lemma strip_marker_letters:
  "has_marker s \<Longrightarrow> marker_letters (strip_marker s) < marker_letters s"
proof (induction s)
  case Nil
  then show ?case by simp
next
  case (Cons c cs)
  show ?case
  proof (cases "starts_marker (dropWhile is_space (c # cs))")
    case True
    then have "marker_letters (drop 2 (dropWhile is_space (c # cs))) <
        marker_letters (dropWhile is_space (c # cs))"
      by (rule marker_letters_drop2)
    then have "marker_letters (drop 2 (dropWhile is_space (c # cs))) < marker_letters (c # cs)"
      by (simp only: marker_letters_dropWhile)
    with True show ?thesis by simp
  next
    case False
    have "\<not> starts_marker (c # cs)"
    proof
      assume s: "starts_marker (c # cs)"
      then have "\<not> is_space c" by (rule starts_marker_not_space)
      then have "dropWhile is_space (c # cs) = c # cs" by simp
      with s False show False by simp
    qed
    with Cons.prems have "has_marker cs" by simp
    with Cons.IH have "marker_letters (strip_marker cs) < marker_letters cs" by simp
    with False show ?thesis by (simp add: marker_letters_def)
  qed
qed

lemma single_letter_clean:
  assumes "marker_letters s \<le> 1"
  shows "\<not> has_marker (normalize_label s)"
proof (cases "has_marker s")
  case True
  then have "marker_letters (strip_marker s) < marker_letters s" by (rule strip_marker_letters)
  with assms have "marker_letters (strip_marker s) = 0" by simp
  moreover have "marker_letters (normalize_label s) \<le> marker_letters (strip_marker s)"
    unfolding normalize_label_def by (rule marker_letters_trim)
  ultimately have "marker_letters (normalize_label s) = 0" by simp
  then show ?thesis using has_marker_letters [of "normalize_label s"] by auto
next
  case False
  then have "strip_marker s = s" by (rule strip_marker_id)
  then have "normalize_label s = trim s" by (simp add: normalize_label_def)
  with False has_marker_trim show ?thesis by auto
qed

lemma normalize_plain:
  "normalize_label ''09:00'' = ''09:00''"
  "normalize_label ''09:30'' = ''09:30''"
  "normalize_label ''10:00'' = ''10:00''"
  by (simp_all add: normalize_label_def trim_def is_space_def)

lemma normalize_defaultSlots: "map normalize_label defaultSlots = defaultSlots"
  by (simp add: defaultSlots_def normalize_label_def trim_def is_space_def)

lemma defaultSlots_clean: "s \<in> set defaultSlots \<Longrightarrow> \<not> has_marker (normalize_label s)"
  by (auto simp: defaultSlots_def normalize_label_def trim_def is_space_def)

lemma legacyFallback_clean:
  "legacyFallback docName = Inr base \<Longrightarrow> s \<in> set base \<Longrightarrow>
   \<not> has_marker (normalize_label s)"
  by (auto simp: legacyFallback_def doctorSlotsOf_def doctorSlots_def startsWith_def
      normalize_label_def trim_def is_space_def split: if_splits tableValue.splits)

section \<open>Normalization is not idempotent on every string\<close>

text \<open>
  Claim C8 says that normalizing a label twice gives the same as normalizing it once,
  for every string. The code removes one marker per pass, so a label with two markers
  needs two passes: the claim fails as stated.
\<close>

theorem normalize_twice_differs:
  "normalize_label (normalize_label ''09:00 AM PM'') \<noteq> normalize_label ''09:00 AM PM''"
  by (simp add: normalize_label_def trim_def is_space_def)

text \<open>
  Claim C8, amended: normalizing twice gives the same as normalizing once exactly when
  the label normalized once carries no AM/PM marker any more, in any letter case. That
  is so for every label with at most one letter M or m, such as a 24-hour label or a
  12-hour label with its one marker.
\<close>

theorem normalize_idempotent_iff:
  "(normalize_label (normalize_label x) = normalize_label x \<longleftrightarrow>
    \<not> has_marker (normalize_label x)) \<and>
   (marker_letters x \<le> 1 \<longrightarrow> normalize_label (normalize_label x) = normalize_label x)"
proof -
  have fixed: "normalize_label (normalize_label x) = normalize_label x"
    if "\<not> has_marker (normalize_label x)"
    using that by (rule normalize_fixed) (rule trim_normalize)
  have marker: "\<not> has_marker (normalize_label x)"
    if eq: "normalize_label (normalize_label x) = normalize_label x"
  proof
    assume "has_marker (normalize_label x)"
    then have "length (normalize_label (normalize_label x)) < length (normalize_label x)"
      by (rule normalize_shorter)
    with eq show False by simp
  qed
  from fixed marker single_letter_clean show ?thesis by blast
qed

theorem normalize_idempotent_iff_witness:
  "marker_letters '' 01:30 pm '' \<le> 1 \<and>
   \<not> has_marker (normalize_label '' 01:30 pm '') \<and>
   normalize_label (normalize_label '' 01:30 pm '') = normalize_label '' 01:30 pm ''"
proof -
  have c: "marker_letters '' 01:30 pm '' \<le> 1"
    by (simp add: marker_letters_def is_m_def)
  have h: "\<not> has_marker (normalize_label '' 01:30 pm '')"
    by (simp add: normalize_label_def trim_def is_space_def)
  from c h normalize_idempotent_iff [of "'' 01:30 pm ''"] show ?thesis by blast
qed

section \<open>Facts about the slot computation\<close>

lemma defaultSlots_grid: "defaultSlots = halfHourGrid"
  by (simp add: defaultSlots_def halfHourGrid_def twoDigits_def upt_rec)

lemma takenTimes_Nil: "takenTimes keep [] = []"
  by (simp add: takenTimes_def)

lemma takenTimes_skip: "\<not> keep a \<Longrightarrow> takenTimes keep (xs @ a # ys) = takenTimes keep (xs @ ys)"
  by (simp add: takenTimes_def)

lemma clash_skip: "a_id a = a_id ap \<Longrightarrow> clash (xs @ a # ys) ap = clash (xs @ ys) ap"
  by (simp add: clash_def list_ex_iff)

section \<open>Facts about the example data\<close>

lemmas ex_defs = exMonday_def exSchedule_def exDoctor_def exAppointment_def exRequest_def

lemma ex_find: "find (\<lambda>d. d_name d = Str ''Dr. D'') [exDoctor] = Some exDoctor"
  by (simp add: exDoctor_def)


lemmas calendar_defs = isoGetDay_def runtimeGetDay_def isoDays_def weekdayOfDay_def
  digitVal_def daysInMonth_def isLeap_def daysFromCivil_def

lemma iso_monday:
  "isoGetDay ''2024-01-01'' = Some 1"
  "isoGetDay ''2024-01-01T00:00:00'' = Some 1"
  by (simp_all add: calendar_defs)

lemma iso_wednesday: "isoGetDay ''2024-01-03'' = Some 3"
  by (simp add: calendar_defs)

text \<open>New York in winter is five hours behind UTC, Amman three hours ahead.\<close>

lemma west_monday:
  "runtimeGetDay (- 300) ''2024-01-01'' = Some 0"
  "runtimeGetDay (- 300) ''2024-01-01T00:00:00'' = Some 1"
  by (simp_all add: calendar_defs)

lemma west_tuesday:
  "runtimeGetDay (- 300) ''2024-01-02'' = Some 1"
  "runtimeGetDay (- 300) ''2024-01-02T00:00:00'' = Some 2"
  by (simp_all add: calendar_defs)

lemma east_monday: "runtimeGetDay 180 ''2024-01-01'' = Some 1"
  by (simp add: calendar_defs)

lemma east_tuesday: "runtimeGetDay 180 ''2024-01-02'' = Some 2"
  by (simp add: calendar_defs)

lemma ex_base:
  "scheduleSlots isoGetDay (Some exDoctor) ''2024-01-01'' = [''09:00'', ''09:30'', ''10:00'']"
  "scheduleSlots isoGetDay (Some exDoctor) ''2024-01-01T00:00:00'' =
     [''09:00'', ''09:30'', ''10:00'']"
  by (simp_all only: scheduleSlots_def doctorSchedule_def iso_monday)
     (simp_all add: dayNames_def usableSlots_def exDoctor_def exSchedule_def)

lemma ex_no_legacy: "legacyFallback (Str ''Dr. D'') = Inr []"
  by (simp add: legacyFallback_def doctorSlotsOf_def doctorSlots_def js_str_def)

text \<open>The example doctor on the example Monday, with nothing booked.\<close>

lemma ex_free_day:
  "availableSlots isoGetDay [exDoctor] [] (Str ''Dr. D'') (Str ''2024-01-01'') =
     Inr [''09:00'', ''09:30'', ''10:00'']"
  "availableSlots_chief isoGetDay [exDoctor] [] formId (Str ''Dr. D'') (Str ''2024-01-01'') =
     [''09:00'', ''09:30'', ''10:00'']"
  unfolding availableSlots_def availableSlots_chief_def Let_def ex_find
  by (simp_all add: truthy_def js_str_def ex_base takenTimes_Nil normalize_plain)



section \<open>A clash stops the save\<close>

text \<open>
  Claim C3: whenever the clash guard of \<^verbatim>\<open>saveAppointment\<close> reports a clash, the
  handler makes no create and no update call; its only action is the alert that the slot
  is already booked. The request is not adjusted.
\<close>

theorem saveAppointment_clash_rejected:
  assumes "clash appointments ap"
  shows "saveAppointment doctors patients appointments ap =
           [Alert ''This slot is already booked for the selected doctor.''] \<and>
         \<not> list_ex isWrite (saveAppointment doctors patients appointments ap)"
  using assms by (simp add: saveAppointment_def isWrite_def)

theorem saveAppointment_clash_rejected_witness:
  "clash [exAppointment] exRequest \<and>
   saveAppointment [exDoctor] [] [exAppointment] exRequest =
     [Alert ''This slot is already booked for the selected doctor.''] \<and>
   \<not> list_ex isWrite (saveAppointment [exDoctor] [] [exAppointment] exRequest)"
proof -
  have h: "clash [exAppointment] exRequest"
    by (simp add: clash_def ex_defs)
  from saveAppointment_clash_rejected [OF h, of "[exDoctor]" "[]"] h show ?thesis
    by blast
qed

section \<open>Changing the status\<close>



text \<open>
  Claim C10: the offer is tied to the exact string \<^verbatim>\<open>Cancelled\<close>. For any other status,
  the lower-case \<^verbatim>\<open>cancelled\<close> included, the handler writes the status and does nothing
  else: no question, no waitlist entry.
\<close>

theorem updateStatus_other_casing_no_offer:
  assumes "status \<noteq> ''Cancelled''"
  shows "updateStatus resolves confirm doctors appointments ident status =
           UpdateWebAppointment ident (noUpdates\<lparr>u_status := Str status\<rparr>) #
           (if resolves then [] else [Rejection])"
  using assms by (simp add: updateStatus_def)

theorem updateStatus_other_casing_no_offer_witness:
  "''cancelled'' \<noteq> ''Cancelled'' \<and>
   updateStatus True (\<lambda>_. True) [exDoctor] [exAppointment] (Str ''appt-1'') ''cancelled'' =
     [UpdateWebAppointment (Str ''appt-1'') (noUpdates\<lparr>u_status := Str ''cancelled''\<rparr>)]"
proof -
  have h: "''cancelled'' \<noteq> ''Cancelled''" by simp
  have "updateStatus True (\<lambda>_. True) [exDoctor] [exAppointment] (Str ''appt-1'') ''cancelled'' =
     UpdateWebAppointment (Str ''appt-1'') (noUpdates\<lparr>u_status := Str ''cancelled''\<rparr>) #
           (if True then [] else [Rejection])"
    by (rule updateStatus_other_casing_no_offer [OF h])
  with h show ?thesis by simp
qed

section \<open>The appointment being edited\<close>

text \<open>
  Claim C5: an appointment whose id is the id given for exclusion counts as absent. The
  availability of the Chief's form (when the form has an id) and of the Clerk's form is
  the same with and without that appointment, and so is the verdict of the clash guard
  of \<^verbatim>\<open>saveAppointment\<close>, whose excluded id is the id of the appointment being saved.
  The dashboard-level \<^verbatim>\<open>availableSlots(docName, dateStr)\<close> of the Clerk takes no id.
\<close>

theorem excluded_appointment_as_absent:
  assumes "a_id a = excludeId"
  shows "(truthy excludeId \<longrightarrow>
            availableSlots_chief getDay doctors (xs @ a # ys) excludeId docName dateStr =
            availableSlots_chief getDay doctors (xs @ ys) excludeId docName dateStr) \<and>
         appointmentModalSlots getDay doctors (xs @ a # ys) excludeId docName dateStr =
           appointmentModalSlots getDay doctors (xs @ ys) excludeId docName dateStr \<and>
         (a_id ap = excludeId \<longrightarrow> clash (xs @ a # ys) ap = clash (xs @ ys) ap)"
  using assms
  by (simp add: availableSlots_chief_def appointmentModalSlots_def Let_def takenTimes_skip
      clash_skip cong: sum.case_cong)

lemma ex_find_modal:
  "find (\<lambda>d. d_name d = Str ''Dr. D'' \<or> d_id d = Str ''Dr. D'' \<or> d_uid d = Str ''Dr. D'')
     [exDoctor] = Some exDoctor"
  by (simp add: exDoctor_def)

lemma ex_free_day_modal:
  "appointmentModalSlots isoGetDay [exDoctor] [] formId (Str ''Dr. D'') (Str ''2024-01-01'') =
     Inr [''09:00'', ''09:30'', ''10:00'']"
  unfolding appointmentModalSlots_def Let_def ex_find_modal
  by (simp add: truthy_def js_str_def ex_base takenTimes_Nil normalize_plain)

theorem excluded_appointment_as_absent_witness:
  "a_id exAppointment = Str ''appt-1'' \<and> truthy (Str ''appt-1'') \<and>
   availableSlots_chief isoGetDay [exDoctor] [exAppointment] (Str ''appt-1'') (Str ''Dr. D'')
     (Str ''2024-01-01'') = [''09:00'', ''09:30'', ''10:00''] \<and>
   appointmentModalSlots isoGetDay [exDoctor] [exAppointment] (Str ''appt-1'') (Str ''Dr. D'')
     (Str ''2024-01-01'') = Inr [''09:00'', ''09:30'', ''10:00''] \<and>
   \<not> clash [exAppointment] exAppointment"
proof -
  have h: "a_id exAppointment = Str ''appt-1''" by (simp add: exAppointment_def)
  have t: "truthy (Str ''appt-1'')" by (simp add: truthy_def)
  note e = excluded_appointment_as_absent [OF h, of isoGetDay "[exDoctor]" "[]" "[]"
      "Str ''Dr. D''" "Str ''2024-01-01''" exAppointment]
  from e t have "availableSlots_chief isoGetDay [exDoctor] [exAppointment] (Str ''appt-1'')
      (Str ''Dr. D'') (Str ''2024-01-01'') =
      availableSlots_chief isoGetDay [exDoctor] [] (Str ''appt-1'') (Str ''Dr. D'')
      (Str ''2024-01-01'')" by simp
  then have r1: "availableSlots_chief isoGetDay [exDoctor] [exAppointment] (Str ''appt-1'')
      (Str ''Dr. D'') (Str ''2024-01-01'') = [''09:00'', ''09:30'', ''10:00'']"
    by (simp only: ex_free_day)
  from e have "appointmentModalSlots isoGetDay [exDoctor] [exAppointment] (Str ''appt-1'')
      (Str ''Dr. D'') (Str ''2024-01-01'') =
      appointmentModalSlots isoGetDay [exDoctor] [] (Str ''appt-1'') (Str ''Dr. D'')
      (Str ''2024-01-01'')" by simp
  then have r2: "appointmentModalSlots isoGetDay [exDoctor] [exAppointment] (Str ''appt-1'')
      (Str ''Dr. D'') (Str ''2024-01-01'') = Inr [''09:00'', ''09:30'', ''10:00'']"
    by (simp only: ex_free_day_modal)
  from e h have "clash [exAppointment] exAppointment = clash [] exAppointment" by simp
  then have r3: "\<not> clash [exAppointment] exAppointment" by (simp add: clash_def)
  from h t r1 r2 r3 show ?thesis by blast
qed

section \<open>Cancelled appointments\<close>

text \<open>
  Claim C6 says that an appointment whose status is Cancelled in any letter case does
  not occupy its slot. The code compares the status with the two strings
  \<^verbatim>\<open>cancelled\<close> and \<^verbatim>\<open>Cancelled\<close> only: an appointment with status
  \<^verbatim>\<open>CANCELLED\<close> at 09:30 removes 09:30 from the availability.
\<close>

theorem uppercase_cancelled_occupies_slot:
  "cancelled_ci (a_status (exAppointment\<lparr>a_status := Str ''CANCELLED''\<rparr>)) \<and>
   timeLabel (exAppointment\<lparr>a_status := Str ''CANCELLED''\<rparr>) = ''09:30'' \<and>
   availableSlots isoGetDay [exDoctor] [] (Str ''Dr. D'') (Str ''2024-01-01'') =
     Inr [''09:00'', ''09:30'', ''10:00''] \<and>
   availableSlots isoGetDay [exDoctor] [exAppointment\<lparr>a_status := Str ''CANCELLED''\<rparr>]
     (Str ''Dr. D'') (Str ''2024-01-01'') = Inr [''09:00'', ''10:00'']"
proof -
  have c: "cancelled_ci (a_status (exAppointment\<lparr>a_status := Str ''CANCELLED''\<rparr>))"
    by (simp add: cancelled_ci_def lower_def)
  have l: "timeLabel (exAppointment\<lparr>a_status := Str ''CANCELLED''\<rparr>) = ''09:30''"
    by (simp add: timeLabel_def exAppointment_def normalize_plain)
  have t: "takenTimes (\<lambda>a. matchesDoctor (Str ''Dr. D'') (Some exDoctor) a \<and>
                a_date a = Str ''2024-01-01'' \<and> notCancelled a)
             [exAppointment\<lparr>a_status := Str ''CANCELLED''\<rparr>] = [''09:30'']"
    by (simp add: takenTimes_def matchesDoctor_def notCancelled_def js_or_def truthy_def
        exAppointment_def normalize_plain)
  have "availableSlots isoGetDay [exDoctor] [exAppointment\<lparr>a_status := Str ''CANCELLED''\<rparr>]
          (Str ''Dr. D'') (Str ''2024-01-01'') = Inr [''09:00'', ''10:00'']"
    unfolding availableSlots_def Let_def ex_find
    by (simp add: truthy_def js_str_def ex_base t normalize_plain)
  with c l show ?thesis by (simp add: ex_free_day)
qed

text \<open>
  Claim C6, amended: an appointment whose status is exactly \<^verbatim>\<open>Cancelled\<close> or
  \<^verbatim>\<open>cancelled\<close> does not occupy its slot: the availability is the same with and
  without it, in the Clerk's function and in the Chief's.
\<close>

theorem cancelled_appointment_frees_slot:
  assumes "a_status a = Str ''Cancelled'' \<or> a_status a = Str ''cancelled''"
  shows "availableSlots getDay doctors (xs @ a # ys) docName dateStr =
           availableSlots getDay doctors (xs @ ys) docName dateStr \<and>
         availableSlots_chief getDay doctors (xs @ a # ys) formId docName dateStr =
           availableSlots_chief getDay doctors (xs @ ys) formId docName dateStr"
proof -
  have "\<not> notCancelled a" using assms by (auto simp: notCancelled_def)
  then show ?thesis
    by (simp add: availableSlots_def availableSlots_chief_def Let_def takenTimes_skip
        cong: sum.case_cong)
qed

theorem cancelled_appointment_frees_slot_witness:
  "a_status (exAppointment\<lparr>a_status := Str ''cancelled''\<rparr>) = Str ''cancelled'' \<and>
   availableSlots isoGetDay [exDoctor] [exAppointment\<lparr>a_status := Str ''cancelled''\<rparr>]
     (Str ''Dr. D'') (Str ''2024-01-01'') = Inr [''09:00'', ''09:30'', ''10:00''] \<and>
   availableSlots_chief isoGetDay [exDoctor] [exAppointment\<lparr>a_status := Str ''cancelled''\<rparr>]
     Undefined (Str ''Dr. D'') (Str ''2024-01-01'') = [''09:00'', ''09:30'', ''10:00'']"
proof -
  let ?a = "exAppointment\<lparr>a_status := Str ''cancelled''\<rparr>"
  have h: "a_status ?a = Str ''cancelled''" by simp
  then have h': "a_status ?a = Str ''Cancelled'' \<or> a_status ?a = Str ''cancelled''" by blast
  note e = cancelled_appointment_frees_slot [OF h', of isoGetDay "[exDoctor]" "[]" "[]"
      "Str ''Dr. D''" "Str ''2024-01-01''" Undefined]
  from e have r1: "availableSlots isoGetDay [exDoctor] [?a] (Str ''Dr. D'')
      (Str ''2024-01-01'') = Inr [''09:00'', ''09:30'', ''10:00'']"
    by (simp only: append_Nil ex_free_day)
  from e have r2: "availableSlots_chief isoGetDay [exDoctor] [?a] Undefined (Str ''Dr. D'')
      (Str ''2024-01-01'') = [''09:00'', ''09:30'', ''10:00'']"
    by (simp only: append_Nil ex_free_day)
  from h r1 r2 show ?thesis by blast
qed

section \<open>The clash guard\<close>

text \<open>
  Claim C1 says that the guard is true exactly when some appointment with another id
  matches the doctor and the date, has the same normalized time, and a status that is
  not Cancelled in any letter case. The guard compares the status with the one string
  \<^verbatim>\<open>Cancelled\<close>: an appointment with status \<^verbatim>\<open>CANCELLED\<close> is a clash for the
  guard and none for the claim.
\<close>

theorem clash_differs_from_hasConflict:
  "clash [exAppointment\<lparr>a_status := Str ''CANCELLED''\<rparr>] exRequest \<and>
   \<not> hasConflict_spec [exAppointment\<lparr>a_status := Str ''CANCELLED''\<rparr>] exRequest"
  by (simp add: clash_def hasConflict_spec_def sameDoctor_def cancelled_ci_def lower_def ex_defs)

text \<open>
  Claim C1, amended: the guard is true only if some appointment with another id matches
  the doctor (\<^verbatim>\<open>doctor\<close>, \<^verbatim>\<open>doctorId\<close> or \<^verbatim>\<open>doctorName\<close> against the saved
  appointment's \<^verbatim>\<open>doctor\<close> and \<^verbatim>\<open>doctorId\<close>), has the same date, the same
  normalized time, and a status other than the string \<^verbatim>\<open>Cancelled\<close>. It is true
  whenever some appointment with another id matches the doctor, has the same date, the
  identical time label, and a status that is neither \<^verbatim>\<open>Cancelled\<close> nor
  \<^verbatim>\<open>cancelled\<close>; so any other letter case of the word counts as booked.
\<close>

theorem clash_characterisation:
  "(clash appointments ap \<longrightarrow>
      (\<exists>a \<in> set appointments. a_id a \<noteq> a_id ap \<and> sameDoctor a ap \<and> a_date a = a_date ap \<and>
         timeLabel a = timeLabel ap \<and> a_status a \<noteq> Str ''Cancelled'')) \<and>
   ((\<exists>a \<in> set appointments. a_id a \<noteq> a_id ap \<and> sameDoctor a ap \<and> a_date a = a_date ap \<and>
         a_time a = a_time ap \<and> a_status a \<noteq> Str ''Cancelled'' \<and>
         a_status a \<noteq> Str ''cancelled'') \<longrightarrow>
      clash appointments ap)"
  by (auto simp: clash_def list_ex_iff sameDoctor_def timeLabel_def)

theorem clash_characterisation_witness:
  "a_id exAppointment \<noteq> a_id exRequest \<and> sameDoctor exAppointment exRequest \<and>
   a_date exAppointment = a_date exRequest \<and> a_time exAppointment = a_time exRequest \<and>
   a_status exAppointment \<noteq> Str ''Cancelled'' \<and> a_status exAppointment \<noteq> Str ''cancelled'' \<and>
   clash [exAppointment] exRequest \<and>
   timeLabel exAppointment = timeLabel exRequest"
proof -
  have p: "a_id exAppointment \<noteq> a_id exRequest" "sameDoctor exAppointment exRequest"
    "a_date exAppointment = a_date exRequest" "a_time exAppointment = a_time exRequest"
    "a_status exAppointment \<noteq> Str ''Cancelled''" "a_status exAppointment \<noteq> Str ''cancelled''"
    by (simp_all add: sameDoctor_def ex_defs)
  note t = clash_characterisation [of "[exAppointment]" exRequest]
  from p have "\<exists>a \<in> set [exAppointment]. a_id a \<noteq> a_id exRequest \<and> sameDoctor a exRequest \<and>
      a_date a = a_date exRequest \<and> a_time a = a_time exRequest \<and>
      a_status a \<noteq> Str ''Cancelled'' \<and> a_status a \<noteq> Str ''cancelled''" by simp
  with t have c: "clash [exAppointment] exRequest" by blast
  with t have "\<exists>a \<in> set [exAppointment]. a_id a \<noteq> a_id exRequest \<and> sameDoctor a exRequest \<and>
      a_date a = a_date exRequest \<and> timeLabel a = timeLabel exRequest \<and>
      a_status a \<noteq> Str ''Cancelled''" by blast
  then have l: "timeLabel exAppointment = timeLabel exRequest" by simp
  from p c l show ?thesis by blast
qed

section \<open>The weekday of the requested date\<close>

lemma ex_find_constructor:
  "find (\<lambda>d. d_name d = Str ''constructor'') [exConstructor] = Some exConstructor"
  by (simp add: exConstructor_def)

lemma ex_base_west:
  "scheduleSlots (runtimeGetDay (- 300)) (Some exDoctor) ''2024-01-01'' = []"
  "scheduleSlots (runtimeGetDay (- 300)) (Some exDoctor) ''2024-01-01T00:00:00'' =
     [''09:00'', ''09:30'', ''10:00'']"
  "scheduleSlots (runtimeGetDay (- 300)) (Some exDoctor) ''2024-01-02'' =
     [''09:00'', ''09:30'', ''10:00'']"
  "scheduleSlots (runtimeGetDay (- 300)) (Some exDoctor) ''2024-01-02T00:00:00'' = []"
  by (simp_all only: scheduleSlots_def doctorSchedule_def west_monday west_tuesday)
     (simp_all add: dayNames_def usableSlots_def exDoctor_def exSchedule_def)

lemma ex_base_east:
  "scheduleSlots (runtimeGetDay 180) (Some exDoctor) ''2024-01-01'' =
     [''09:00'', ''09:30'', ''10:00'']"
  "scheduleSlots (runtimeGetDay 180) (Some exDoctor) ''2024-01-02'' = []"
  by (simp_all only: scheduleSlots_def doctorSchedule_def east_monday east_tuesday)
     (simp_all add: dayNames_def usableSlots_def exDoctor_def exSchedule_def)

lemma ex_taken:
  "takenTimes (\<lambda>a. matchesDoctor (Str ''Dr. D'') (Some exDoctor) a \<and>
       a_date a = Str ''2024-01-01'' \<and> notCancelled a) [exAppointment] = [''09:30'']"
  "takenTimes (\<lambda>a. (if truthy Undefined then a_id a \<noteq> Undefined else True) \<and>
       matchesDoctor (Str ''Dr. D'') (Some exDoctor) a \<and>
       a_date a = Str ''2024-01-01'' \<and> notCancelled a) [exAppointment] = [''09:30'']"
  by (simp_all add: takenTimes_def matchesDoctor_def notCancelled_def js_or_def truthy_def
      exAppointment_def normalize_plain)

lemma ex_constructor_legacy: "legacyFallback (Str ''constructor'') = Inl TypeError"
  by (simp add: legacyFallback_def doctorSlotsOf_def doctorSlots_def js_str_def)

text \<open>
  Claim C2 is the scenario of a doctor whose Monday is enabled with the slots 09:00,
  09:30 and 10:00 and who has one Scheduled appointment at 09:30 on a Monday date: the
  availability for that date is 09:00 and 10:00. The first of January 2024 is a Monday.
  The Clerk's dashboard function hands the date string to \<^verbatim>\<open>new Date\<close> as it is, so
  the runtime reads it as midnight UTC, and \<^verbatim>\<open>getDay\<close> answers in local time: in a
  browser five hours behind UTC the answer is Sunday. The doctor has no Sunday, the
  legacy table has no entry for the name, and the function returns the default grid
  without 09:30. The Chief's function, which appends \<^verbatim>\<open>T00:00:00\<close> to the date,
  returns 09:00 and 10:00 in the same browser, and so does the Clerk's function in a
  browser three hours ahead of UTC.
\<close>

theorem availableSlots_monday_west_of_greenwich:
  "exSchedule ''monday'' = Some \<lparr>enabled = True, slots = Some [''09:00'', ''09:30'', ''10:00'']\<rparr> \<and>
   exSchedule ''sunday'' = None \<and>
   a_time exAppointment = Str ''09:30'' \<and> a_status exAppointment = Str ''Scheduled'' \<and>
   civilWeekday ''2024-01-01'' = Some 1 \<and>
   runtimeGetDay (- 300) ''2024-01-01'' = Some 0 \<and>
   availableSlots (runtimeGetDay (- 300)) [exDoctor] [exAppointment] (Str ''Dr. D'')
     (Str ''2024-01-01'') =
     Inr [''09:00'', ''10:00'', ''10:30'', ''11:00'', ''11:30'', ''12:00'', ''12:30'', ''13:00'',
          ''13:30'', ''14:00'', ''14:30'', ''15:00'', ''15:30'', ''16:00'', ''16:30'', ''17:00''] \<and>
   availableSlots_chief (runtimeGetDay (- 300)) [exDoctor] [exAppointment] Undefined
     (Str ''Dr. D'') (Str ''2024-01-01'') = [''09:00'', ''10:00''] \<and>
   availableSlots (runtimeGetDay 180) [exDoctor] [exAppointment] (Str ''Dr. D'')
     (Str ''2024-01-01'') = Inr [''09:00'', ''10:00'']"
proof -
  have s: "exSchedule ''monday'' =
      Some \<lparr>enabled = True, slots = Some [''09:00'', ''09:30'', ''10:00'']\<rparr>"
    "exSchedule ''sunday'' = None"
    by (simp_all add: exSchedule_def)
  have a: "a_time exAppointment = Str ''09:30''" "a_status exAppointment = Str ''Scheduled''"
    by (simp_all add: exAppointment_def)
  have c: "civilWeekday ''2024-01-01'' = Some 1"
    by (simp add: civilWeekday_def calendar_defs)
  have w: "availableSlots (runtimeGetDay (- 300)) [exDoctor] [exAppointment] (Str ''Dr. D'')
      (Str ''2024-01-01'') =
      Inr [''09:00'', ''10:00'', ''10:30'', ''11:00'', ''11:30'', ''12:00'', ''12:30'', ''13:00'',
           ''13:30'', ''14:00'', ''14:30'', ''15:00'', ''15:30'', ''16:00'', ''16:30'', ''17:00'']"
    unfolding availableSlots_def Let_def ex_find
    by (simp add: truthy_def js_str_def ex_base_west ex_no_legacy ex_taken
        normalize_defaultSlots)
       (simp add: defaultSlots_def)
  have k: "availableSlots_chief (runtimeGetDay (- 300)) [exDoctor] [exAppointment] Undefined
      (Str ''Dr. D'') (Str ''2024-01-01'') = [''09:00'', ''10:00'']"
    unfolding availableSlots_chief_def Let_def ex_find
    by (simp add: js_str_def ex_base_west ex_taken normalize_plain)
       (simp add: truthy_def)
  have e: "availableSlots (runtimeGetDay 180) [exDoctor] [exAppointment] (Str ''Dr. D'')
      (Str ''2024-01-01'') = Inr [''09:00'', ''10:00'']"
    unfolding availableSlots_def Let_def ex_find
    by (simp add: truthy_def js_str_def ex_base_east ex_taken normalize_plain)
  from s a c w k e show ?thesis by (simp only: west_monday simp_thms)
qed

section \<open>The default grid\<close>

text \<open>
  Claim C4 says that a doctor with no usable slots for the requested weekday, for want
  of a work schedule, because the day is disabled or because its list is empty, and
  with no entry in the legacy table, gets the default grid, the half hours from 09:00
  to 17:00, less the occupied times. The default list of the code is that grid. The
  Clerk's dashboard function fails the claim on two inputs with nothing booked.
  The second of January 2024 is a Tuesday, which the example doctor has disabled. In a
  browser five hours behind UTC the function reads the date as Monday evening and
  returns Monday's three slots; the Chief's function returns the grid in that browser,
  and the Clerk's function returns it in a browser ahead of UTC. This is the weekday
  defect of Claim C2. For a doctor without a work schedule whose name is
  \<^verbatim>\<open>constructor\<close>, a key that the legacy table has no entry of its own for, the
  lookup \<^verbatim>\<open>doctorSlots[docName]\<close> finds the function inherited from
  \<^verbatim>\<open>Object.prototype\<close>, and \<^verbatim>\<open>base[0].includes\<close> throws a TypeError in any
  browser; the branch without a date, which tests \<^verbatim>\<open>Array.isArray\<close>, returns the
  grid for the same doctor.
\<close>

theorem availableSlots_default_grid_failures:
  "defaultSlots = halfHourGrid \<and>
   exSchedule ''tuesday'' = Some \<lparr>enabled = False, slots = Some [''08:00'']\<rparr> \<and>
   civilWeekday ''2024-01-02'' = Some 2 \<and>
   doctorSlotsOf (Str ''Dr. D'') = Missing \<and>
   runtimeGetDay (- 300) ''2024-01-02'' = Some 1 \<and>
   availableSlots (runtimeGetDay (- 300)) [exDoctor] [] (Str ''Dr. D'') (Str ''2024-01-02'') =
     Inr [''09:00'', ''09:30'', ''10:00''] \<and>
   availableSlots_chief (runtimeGetDay (- 300)) [exDoctor] [] Undefined (Str ''Dr. D'')
     (Str ''2024-01-02'') = defaultSlots \<and>
   availableSlots (runtimeGetDay 180) [exDoctor] [] (Str ''Dr. D'') (Str ''2024-01-02'') =
     Inr defaultSlots \<and>
   d_workSchedule exConstructor = None \<and>
   doctorSlotsOf (Str ''constructor'') = InheritedFunction 1 \<and>
   availableSlots (runtimeGetDay 180) [exConstructor] [] (Str ''constructor'')
     (Str ''2024-01-02'') = Inl TypeError \<and>
   availableSlots (runtimeGetDay 180) [exConstructor] [] (Str ''constructor'') Undefined =
     Inr defaultSlots"
proof -
  have s: "exSchedule ''tuesday'' = Some \<lparr>enabled = False, slots = Some [''08:00'']\<rparr>"
    by (simp add: exSchedule_def)
  have c: "civilWeekday ''2024-01-02'' = Some 2"
    by (simp add: civilWeekday_def calendar_defs)
  have m: "doctorSlotsOf (Str ''Dr. D'') = Missing"
    "doctorSlotsOf (Str ''constructor'') = InheritedFunction 1"
    by (simp_all add: doctorSlotsOf_def doctorSlots_def js_str_def)
  have w: "availableSlots (runtimeGetDay (- 300)) [exDoctor] [] (Str ''Dr. D'')
      (Str ''2024-01-02'') = Inr [''09:00'', ''09:30'', ''10:00'']"
    unfolding availableSlots_def Let_def ex_find
    by (simp add: truthy_def js_str_def ex_base_west takenTimes_Nil normalize_plain)
  have k: "availableSlots_chief (runtimeGetDay (- 300)) [exDoctor] [] Undefined (Str ''Dr. D'')
      (Str ''2024-01-02'') = defaultSlots"
    unfolding availableSlots_chief_def Let_def ex_find
    by (simp add: truthy_def js_str_def ex_base_west takenTimes_Nil normalize_defaultSlots)
  have e: "availableSlots (runtimeGetDay 180) [exDoctor] [] (Str ''Dr. D'')
      (Str ''2024-01-02'') = Inr defaultSlots"
    unfolding availableSlots_def Let_def ex_find
    by (simp add: truthy_def js_str_def ex_base_east ex_no_legacy takenTimes_Nil
        normalize_defaultSlots)
  have n: "d_workSchedule exConstructor = None"
    by (simp add: exConstructor_def)
  have t: "availableSlots (runtimeGetDay 180) [exConstructor] [] (Str ''constructor'')
      (Str ''2024-01-02'') = Inl TypeError"
    unfolding availableSlots_def Let_def ex_find_constructor
    by (simp add: truthy_def js_str_def scheduleSlots_def doctorSchedule_def n
        ex_constructor_legacy)
  have u: "availableSlots (runtimeGetDay 180) [exConstructor] [] (Str ''constructor'')
      Undefined = Inr defaultSlots"
    unfolding availableSlots_def Let_def ex_find_constructor
    by (simp add: truthy_def doctorSchedule_def n m)
  from s c m w k e n t u show ?thesis
    by (simp only: defaultSlots_grid [symmetric] west_tuesday simp_thms)
qed

section \<open>Returned labels\<close>

text \<open>
  Claim C7 says that every label returned by \<^verbatim>\<open>availableSlots\<close> is normalized, also
  when the date is absent or empty. Without a date the function returns the configured
  list as it is: for a doctor of the legacy table the labels keep their marker.
\<close>

theorem availableSlots_without_date_unnormalized:
  "availableSlots isoGetDay [exDoctor] [] (Str ''Dr. Omar Khaled'') Undefined =
     Inr [''09:00 AM'', ''10:00 AM'', ''11:00 AM'', ''02:00 PM''] \<and>
   ends_with_marker ''09:00 AM''"
  by (simp add: availableSlots_def Let_def truthy_def doctorSchedule_def doctorSlotsOf_def
      doctorSlots_def js_str_def ends_with_marker_def exDoctor_def)

lemma ex_wednesday_base:
  "scheduleSlots isoGetDay (Some exDoctor) ''2024-01-03'' = [''09:00 AM'', '' 01:30 pm '']"
  by (simp only: scheduleSlots_def doctorSchedule_def iso_wednesday)
     (simp add: dayNames_def usableSlots_def exDoctor_def exSchedule_def)

lemma ex_wednesday:
  "availableSlots isoGetDay [exDoctor] [] (Str ''Dr. D'') (Str ''2024-01-03'') =
     Inr [''09:00'', ''01:30'']"
  unfolding availableSlots_def Let_def ex_find
  by (simp add: truthy_def js_str_def ex_wednesday_base takenTimes_Nil)
     (simp add: normalize_label_def trim_def is_space_def)

text \<open>
  Claim C7, amended: for every doctor, every date argument that is present and not
  empty (parseable or not) and every appointment list, each label of a list that the
  function returns has no surrounding whitespace; and it carries no AM/PM marker, in
  any letter case and at any position, provided that each label of the work-schedule
  list that the function reads for the date has at most one letter M or m.
\<close>

theorem availableSlots_labels_normalized:
  assumes date: "truthy dateStr"
    and r: "availableSlots getDay doctors appointments docName dateStr = Inr result"
    and x: "x \<in> set result"
  shows "trim x = x \<and>
         ((\<forall>s \<in> set (scheduleSlots getDay (find (\<lambda>d. d_name d = docName) doctors)
                      (js_str dateStr)). marker_letters s \<le> 1) \<longrightarrow>
          \<not> has_marker x \<and> \<not> ends_with_marker x)"
proof -
  let ?base0 = "scheduleSlots getDay (find (\<lambda>d. d_name d = docName) doctors) (js_str dateStr)"
  let ?base1 = "if ?base0 = [] then legacyFallback docName else Inr ?base0"
  from r date obtain base1 where b1: "?base1 = Inr base1"
    and res: "result = filter (\<lambda>s. s \<notin> set (takenTimes
        (\<lambda>a. matchesDoctor docName (find (\<lambda>d. d_name d = docName) doctors) a \<and>
             a_date a = dateStr \<and> notCancelled a) appointments))
        (map normalize_label (if base1 = [] then defaultSlots else base1))"
    by (auto simp: availableSlots_def Let_def split: sum.splits)
  from x res obtain s where s: "s \<in> set (if base1 = [] then defaultSlots else base1)"
    and xs: "x = normalize_label s" by auto
  have t: "trim x = x" unfolding xs by (rule trim_normalize)
  have m: "\<not> has_marker x" if h: "\<forall>s \<in> set ?base0. marker_letters s \<le> 1"
  proof (cases "base1 = []")
    case True
    with s have "s \<in> set defaultSlots" by simp
    then show ?thesis unfolding xs by (rule defaultSlots_clean)
  next
    case False
    with s have sb: "s \<in> set base1" by simp
    show ?thesis
    proof (cases "?base0 = []")
      case True
      with b1 have "legacyFallback docName = Inr base1" by simp
      from legacyFallback_clean [OF this sb] show ?thesis unfolding xs .
    next
      case False
      with b1 have "base1 = ?base0" by simp
      with sb h have "marker_letters s \<le> 1" by blast
      then show ?thesis unfolding xs by (rule single_letter_clean)
    qed
  qed
  from t m ends_has_marker show ?thesis by blast
qed

theorem availableSlots_labels_normalized_witness:
  "truthy (Str ''2024-01-03'') \<and>
   availableSlots isoGetDay [exDoctor] [] (Str ''Dr. D'') (Str ''2024-01-03'') =
     Inr [''09:00'', ''01:30''] \<and>
   scheduleSlots isoGetDay (find (\<lambda>d. d_name d = Str ''Dr. D'') [exDoctor])
     (js_str (Str ''2024-01-03'')) = [''09:00 AM'', '' 01:30 pm ''] \<and>
   marker_letters ''09:00 AM'' \<le> 1 \<and> marker_letters '' 01:30 pm '' \<le> 1 \<and>
   trim ''01:30'' = ''01:30'' \<and> \<not> has_marker ''01:30'' \<and> \<not> ends_with_marker ''01:30''"
proof -
  have d: "truthy (Str ''2024-01-03'')" by (simp add: truthy_def)
  note r = ex_wednesday
  have x: "''01:30'' \<in> set [''09:00'', ''01:30'']" by simp
  have b: "scheduleSlots isoGetDay (find (\<lambda>d. d_name d = Str ''Dr. D'') [exDoctor])
     (js_str (Str ''2024-01-03'')) = [''09:00 AM'', '' 01:30 pm '']"
    unfolding ex_find by (simp add: js_str_def ex_wednesday_base)
  have m: "marker_letters ''09:00 AM'' \<le> 1" "marker_letters '' 01:30 pm '' \<le> 1"
    by (simp_all add: marker_letters_def is_m_def)
  from m b have "\<forall>s \<in> set (scheduleSlots isoGetDay
      (find (\<lambda>d. d_name d = Str ''Dr. D'') [exDoctor]) (js_str (Str ''2024-01-03''))).
      marker_letters s \<le> 1" by simp
  with availableSlots_labels_normalized [OF d r x]
  have "trim ''01:30'' = ''01:30'' \<and> \<not> has_marker ''01:30'' \<and> \<not> ends_with_marker ''01:30''"
    by blast
  with d r b m show ?thesis by blast
qed

end
